theory Spec2Isabelle
  imports Main "HOL-Library.Sublist"
begin

unbundle bit_operations_syntax

section \<open>Python values used by the Autelis wrapper\<close>

text \<open>
  A Python \<open>str\<close> is modelled as a HOL \<open>string\<close>: a list of characters with code
  points below 256 (every token of the wire protocol is ASCII). A \<open>bytes\<close> object is
  a list of 8-bit characters as well. A decoded network message may hold any code
  point, so the result of \<open>bytes.decode\<close> is a list of code points (\<open>nat list\<close>).
  Exceptions are values of \<open>exn\<close>; a function that can raise returns \<open>exn + 'a\<close>.
\<close>

type_synonym bytes = string

datatype exn =
    ValueError
  | UnicodeDecodeError
  | ParseError
  | Unexpected

definition CR :: char where
  "CR = CHR 0x0D"

definition LF :: char where
  "LF = CHR 0x0A"

subsection \<open>\<open>str.lower\<close>, \<open>int(str)\<close> and \<open>str(int)\<close>\<close>

text \<open>
  \<open>str.lower\<close> on code points below 256: the ASCII capitals and the Latin-1 capitals
  (\<open>0xC0\<close> to \<open>0xDE\<close> without the multiplication sign \<open>0xD7\<close>) move up by 32.
\<close>

definition lower_char :: "char \<Rightarrow> char" where
  "lower_char c =
     (let n = (of_char c :: nat)
      in if (65 \<le> n \<and> n \<le> 90) \<or> (192 \<le> n \<and> n \<le> 214) \<or> (216 \<le> n \<and> n \<le> 222)
         then char_of (n + 32) else c)"

definition lower :: "string \<Rightarrow> string" where
  "lower s = map lower_char s"

text \<open>
  \<open>int(s)\<close> in base 10: white space around the literal is dropped (tab to carriage
  return, space, and the Latin-1 characters \<open>0x85\<close> and \<open>0xA0\<close>), one sign is allowed,
  then decimal digits, where single underscores may stand between two digits.
  Anything else raises \<open>ValueError\<close>. (The interpreter's limit on the number of
  digits of a literal is far above the 32 bytes of a message and is left out.)
\<close>

definition is_space :: "char \<Rightarrow> bool" where
  "is_space c =
     (let n = (of_char c :: nat)
      in (9 \<le> n \<and> n \<le> 13) \<or> n = 32 \<or> n = 133 \<or> n = 160)"

definition is_digit :: "char \<Rightarrow> bool" where
  "is_digit c = (let n = (of_char c :: nat) in 48 \<le> n \<and> n \<le> 57)"

definition digit_val :: "char \<Rightarrow> nat" where
  "digit_val c = of_char c - 48"

definition strip :: "string \<Rightarrow> string" where
  "strip s = rev (dropWhile is_space (rev (dropWhile is_space s)))"

fun int_digits :: "nat \<Rightarrow> string \<Rightarrow> nat option" where
  "int_digits acc [] = Some acc"
| "int_digits acc (c # cs) =
     (if is_digit c then int_digits (10 * acc + digit_val c) cs
      else if c = CHR ''_'' then
        (case cs of
           [] \<Rightarrow> None
         | d # ds \<Rightarrow> if is_digit d then int_digits (10 * acc + digit_val d) ds else None)
      else None)"

definition int_unsigned :: "string \<Rightarrow> nat option" where
  "int_unsigned s =
     (case s of
        [] \<Rightarrow> None
      | c # cs \<Rightarrow> if is_digit c then int_digits (digit_val c) cs else None)"

definition int_signed :: "string \<Rightarrow> int option" where
  "int_signed s =
     (case s of
        [] \<Rightarrow> None
      | c # cs \<Rightarrow>
          if c = CHR ''-'' then map_option (\<lambda>n. - int n) (int_unsigned cs)
          else if c = CHR ''+'' then map_option int (int_unsigned cs)
          else map_option int (int_unsigned s))"

definition py_int :: "string \<Rightarrow> exn + int" where
  "py_int s = (case int_signed (strip s) of None \<Rightarrow> Inl ValueError | Some i \<Rightarrow> Inr i)"

function str_nat :: "nat \<Rightarrow> string" where
  "str_nat n =
     (if n < 10 then [char_of (48 + n)]
      else str_nat (n div 10) @ [char_of (48 + n mod 10)])"
  by pat_completeness auto
termination
  by (relation "measure (\<lambda>n. n)") auto

declare str_nat.simps [simp del]

definition py_str :: "int \<Rightarrow> string" where
  "py_str i = (if i < 0 then CHR ''-'' # str_nat (nat (- i)) else str_nat (nat i))"

section \<open>Vocabulary translator (autelisapi.py)\<close>

text \<open>
  \<open>cmd_to_element\<close>: a command word that starts with \<open>CIR\<close> has the rest of the word
  converted with \<open>int\<close>, which raises \<open>ValueError\<close> when the rest is no integer
  literal; the comparison with 41 and 50 is on the number, the \<open>circuit\<close> name is
  built from the text.
\<close>

definition cmd_to_element :: "string \<Rightarrow> exn + string" where
  "cmd_to_element cmd =
     (if take 3 cmd = ''CIR'' then
        (case py_int (drop 3 cmd) of
           Inl e \<Rightarrow> Inl e
         | Inr circuitNum \<Rightarrow>
             if circuitNum \<ge> 41 \<and> circuitNum \<le> 50
             then Inr (''feature'' @ py_str (circuitNum - 40))
             else Inr (''circuit'' @ drop 3 cmd))
      else if cmd = ''AIRTMP'' then Inr ''airtemp''
      else if cmd = ''SPATMP'' then Inr ''spatemp''
      else if cmd = ''SOLHT'' then Inr ''solarht''
      else if cmd = ''SOLTMP'' then Inr ''solartemp''
      else if cmd = ''WFALL'' then Inr ''waterfall''
      else if cmd = ''CLEAN'' then Inr ''cleaner''
      else if cmd = ''OPTIONS'' then Inr ''dip''
      else if cmd = ''UNITS'' then Inr ''tempunits''
      else if cmd = ''POOLTMP'' then Inr ''pooltemp''
      else if cmd = ''POOLTMP2'' then Inr ''pooltemp''
      else Inr (lower cmd))"

definition val_to_text :: "string \<Rightarrow> string" where
  "val_to_text val =
     (if val = ''AUTO'' then ''0''
      else if val = ''SERVICE'' then ''1''
      else if val = ''TIMEOUT'' then ''2''
      else if val = ''TRUE'' then ''1''
      else if val = ''FALSE'' then ''0''
      else if val = ''T'' then ''1''
      else if val = ''F'' then ''0''
      else if val = ''ON'' then ''1''
      else if val = ''OFF'' then ''0''
      else if val = ''HEATER'' then ''1''
      else if val = ''SOLPREF'' then ''2''
      else if val = ''SOLAR'' then ''3''
      else val)"

section \<open>Push-update listener (autelisapi.py)\<close>

subsection \<open>\<open>bytes.decode("utf-8")\<close>\<close>

text \<open>
  The strict UTF-8 decoder: well-formed sequences only (no overlong forms, no
  surrogates, nothing above \<open>0x10FFFF\<close>, no sequence cut off at the end); anything
  else raises \<open>UnicodeDecodeError\<close>.
\<close>

definition is_cont :: "nat \<Rightarrow> bool" where
  "is_cont b = (128 \<le> b \<and> b \<le> 191)"

fun utf8_decode :: "nat list \<Rightarrow> nat list option" where
  "utf8_decode [] = Some []"
| "utf8_decode (b # bs) =
     (if b < 128 then map_option ((#) b) (utf8_decode bs)
      else if 194 \<le> b \<and> b \<le> 223 then
        (case bs of
           c1 # r \<Rightarrow>
             if is_cont c1
             then map_option ((#) ((b - 192) * 64 + (c1 - 128))) (utf8_decode r)
             else None
         | _ \<Rightarrow> None)
      else if 224 \<le> b \<and> b \<le> 239 then
        (case bs of
           c1 # c2 # r \<Rightarrow>
             if (if b = 224 then 160 else 128) \<le> c1 \<and> c1 \<le> (if b = 237 then 159 else 191)
                \<and> is_cont c2
             then map_option ((#) ((b - 224) * 4096 + (c1 - 128) * 64 + (c2 - 128)))
                    (utf8_decode r)
             else None
         | _ \<Rightarrow> None)
      else if 240 \<le> b \<and> b \<le> 244 then
        (case bs of
           c1 # c2 # c3 # r \<Rightarrow>
             if (if b = 240 then 144 else 128) \<le> c1 \<and> c1 \<le> (if b = 244 then 143 else 191)
                \<and> is_cont c2 \<and> is_cont c3
             then map_option
                    ((#) ((b - 240) * 262144 + (c1 - 128) * 4096 + (c2 - 128) * 64 + (c3 - 128)))
                    (utf8_decode r)
             else None
         | _ \<Rightarrow> None)
      else None)"

definition decode :: "bytes \<Rightarrow> exn + nat list" where
  "decode msg =
     (case utf8_decode (map of_char msg) of
        None \<Rightarrow> Inl UnicodeDecodeError
      | Some s \<Rightarrow> Inr s)"

subsection \<open>\<open>re.match\<close> with the status-update pattern\<close>

text \<open>
  The pattern is \<^verbatim>\<open>!00 ([A-Z0-9]+)=([A-Z0-9]+) ?[FC]?\r\n\<close>, matched at the start of
  the text; what follows the match is ignored. The matcher is a backtracking one, as
  the library's: every piece takes the continuation for the rest of the pattern, a
  greedy piece tries its longest match first and gives characters back when the
  continuation fails.
\<close>

definition ustr :: "string \<Rightarrow> nat list" where
  "ustr s = map of_char s"

fun re_lit :: "'a list \<Rightarrow> 'a list \<Rightarrow> ('a list \<Rightarrow> 'b option) \<Rightarrow> 'b option" where
  "re_lit [] s k = k s"
| "re_lit (c # cs) [] k = None"
| "re_lit (c # cs) (x # xs) k = (if x = c then re_lit cs xs k else None)"

fun re_opt :: "('a \<Rightarrow> bool) \<Rightarrow> 'a list \<Rightarrow> ('a list \<Rightarrow> 'b option) \<Rightarrow> 'b option" where
  "re_opt P [] k = k []"
| "re_opt P (x # xs) k =
     (if P x then (case k xs of Some r \<Rightarrow> Some r | None \<Rightarrow> k (x # xs)) else k (x # xs))"

fun re_star :: "('a \<Rightarrow> bool) \<Rightarrow> 'a list \<Rightarrow> 'a list \<Rightarrow> ('a list \<Rightarrow> 'a list \<Rightarrow> 'b option) \<Rightarrow> 'b option" where
  "re_star P acc [] k = k acc []"
| "re_star P acc (x # xs) k =
     (if P x
      then (case re_star P (acc @ [x]) xs k of Some r \<Rightarrow> Some r | None \<Rightarrow> k acc (x # xs))
      else k acc (x # xs))"

fun re_plus :: "('a \<Rightarrow> bool) \<Rightarrow> 'a list \<Rightarrow> ('a list \<Rightarrow> 'a list \<Rightarrow> 'b option) \<Rightarrow> 'b option" where
  "re_plus P [] k = None"
| "re_plus P (x # xs) k = (if P x then re_star P [x] xs k else None)"

definition token_char :: "nat \<Rightarrow> bool" where
  "token_char n = ((65 \<le> n \<and> n \<le> 90) \<or> (48 \<le> n \<and> n \<le> 57))"

definition space_char :: "nat \<Rightarrow> bool" where
  "space_char n = (n = 32)"

definition unit_char :: "nat \<Rightarrow> bool" where
  "unit_char n = (n = 70 \<or> n = 67)"

definition status_update_match :: "nat list \<Rightarrow> (nat list \<times> nat list) option" where
  "status_update_match s =
     re_lit (ustr ''!00 '') s (\<lambda>s1.
     re_plus token_char s1 (\<lambda>cmd s2.
     re_lit (ustr ''='') s2 (\<lambda>s3.
     re_plus token_char s3 (\<lambda>val s4.
     re_opt space_char s4 (\<lambda>s5.
     re_opt unit_char s5 (\<lambda>s6.
     re_lit (ustr [CR, LF]) s6 (\<lambda>s7. Some (cmd, val))))))))"

definition to_str :: "nat list \<Rightarrow> string" where
  "to_str s = map char_of s"

subsection \<open>The socket and what the listener does\<close>

text \<open>
  A call on the socket either returns or raises \<open>socket.timeout\<close>, another
  \<open>socket.error\<close>, or something else. The environment is two scripts: the outcomes
  of the successive \<open>recv\<close> calls and of the successive \<open>send\<close> calls. The listener
  is run against them and yields the list of its effects, in order, and how it
  ended: it returned, it raised, or it is still blocked in a socket call for which
  the script has no outcome yet.
\<close>

datatype 'a sock_result = Done 'a | SockTimeout | SockError | SockUnexpected

datatype level = Debug | Warning | Error

datatype action =
    Log level
  | Connect string nat
  | SetTimeout nat
  | Send bytes
  | Close
  | Callback string string

datatype final = Returned bool | Raised exn | Blocked

type_synonym handler = "string \<Rightarrow> string \<Rightarrow> bool"

definition CONTROLLER_TCP_PORT :: nat where
  "CONTROLLER_TCP_PORT = 6000"

definition TEST_TCP_MSG :: bytes where
  "TEST_TCP_MSG = ''#OPMODE?'' @ [CR]"

definition TEST_RTN_SUCCESS :: bytes where
  "TEST_RTN_SUCCESS = ''!00 OPMODE=''"


text \<open>\<open>a in b\<close> on \<open>bytes\<close>: \<open>a\<close> occurs in \<open>b\<close> as a contiguous run.\<close>

fun bytes_in :: "bytes \<Rightarrow> bytes \<Rightarrow> bool" where
  "bytes_in p [] = (p = [])"
| "bytes_in p (x # xs) = (prefix p (x # xs) \<or> bytes_in p xs)"

text \<open>
  Lines 180 to 199: a non-empty message is decoded and matched; on a match the
  callback, when there is one, gets the translated pair, and a false answer is logged.
  The result is the effects and the exception that ended the processing, if any.
\<close>

definition process_msg :: "handler option \<Rightarrow> bytes \<Rightarrow> action list \<times> exn option" where
  "process_msg statusUpdateCallback msg =
     (if length msg > 0 then
        (case decode msg of
           Inl e \<Rightarrow> ([], Some e)
         | Inr text \<Rightarrow>
             (case status_update_match text of
                Some (cmd, val) \<Rightarrow>
                  (case statusUpdateCallback of
                     None \<Rightarrow> ([Log Debug], None)
                   | Some callback \<Rightarrow>
                       (case cmd_to_element (to_str cmd) of
                          Inl e \<Rightarrow> ([Log Debug], Some e)
                        | Inr element \<Rightarrow>
                            if callback element (val_to_text (to_str val))
                            then ([Log Debug, Callback element (val_to_text (to_str val))], None)
                            else ([Log Debug, Callback element (val_to_text (to_str val)),
                                   Log Warning], None)))
              | None \<Rightarrow> ([Log Warning], None)))
      else ([], None))"

text \<open>
  Lines 143 to 178: the receive with its handlers. It ends the listener, or hands a
  message on to the processing, together with what is left of the two scripts.
  When the reply to the test message lacks the expected text, the call that logs the
  error decodes the reply for its argument, before the socket is closed: a reply
  that is not UTF-8 raises \<open>UnicodeDecodeError\<close> there, inside the handler of the
  timeout, where no other handler of the statement applies, so the socket stays open
  and nothing is returned.
\<close>

datatype received = Msg bytes | Stop final

definition probe ::
  "bytes sock_result list \<Rightarrow> unit sock_result list \<Rightarrow>
   action list \<times> received \<times> bytes sock_result list \<times> unit sock_result list" where
  "probe recvs sends =
     (case sends of
        [] \<Rightarrow> ([SetTimeout 2, Send TEST_TCP_MSG], Stop Blocked, recvs, sends)
      | Done u # sends' \<Rightarrow>
          (case recvs of
             [] \<Rightarrow> ([SetTimeout 2, Send TEST_TCP_MSG], Stop Blocked, recvs, sends')
           | Done msg # recvs' \<Rightarrow>
               if \<not> bytes_in TEST_RTN_SUCCESS msg
               then (case decode msg of
                       Inl e \<Rightarrow>
                         ([SetTimeout 2, Send TEST_TCP_MSG], Stop (Raised e), recvs', sends')
                     | Inr text \<Rightarrow>
                         ([SetTimeout 2, Send TEST_TCP_MSG, Log Error, Close],
                          Stop (Returned False), recvs', sends'))
               else ([SetTimeout 2, Send TEST_TCP_MSG], Msg msg, recvs', sends')
           | SockTimeout # recvs' \<Rightarrow>
               ([SetTimeout 2, Send TEST_TCP_MSG, Log Error, Close],
                Stop (Returned False), recvs', sends')
           | SockError # recvs' \<Rightarrow>
               ([SetTimeout 2, Send TEST_TCP_MSG, Log Error, Close],
                Stop (Returned False), recvs', sends')
           | SockUnexpected # recvs' \<Rightarrow>
               ([SetTimeout 2, Send TEST_TCP_MSG, Close], Stop (Raised Unexpected), recvs', sends'))
      | SockTimeout # sends' \<Rightarrow>
          ([SetTimeout 2, Send TEST_TCP_MSG, Log Error, Close],
           Stop (Returned False), recvs, sends')
      | SockError # sends' \<Rightarrow>
          ([SetTimeout 2, Send TEST_TCP_MSG, Log Error, Close],
           Stop (Returned False), recvs, sends')
      | SockUnexpected # sends' \<Rightarrow>
          ([SetTimeout 2, Send TEST_TCP_MSG, Close], Stop (Raised Unexpected), recvs, sends'))"

definition receive ::
  "bytes sock_result list \<Rightarrow> unit sock_result list \<Rightarrow>
   action list \<times> received \<times> bytes sock_result list \<times> unit sock_result list" where
  "receive recvs sends =
     (case recvs of
        [] \<Rightarrow> ([SetTimeout 600], Stop Blocked, recvs, sends)
      | Done msg # recvs' \<Rightarrow> ([SetTimeout 600], Msg msg, recvs', sends)
      | SockTimeout # recvs' \<Rightarrow>
          (case probe recvs' sends of
             (acts, r, recvs'', sends') \<Rightarrow> (SetTimeout 600 # acts, r, recvs'', sends'))
      | SockError # recvs' \<Rightarrow>
          ([SetTimeout 600, Log Error, Close], Stop (Returned False), recvs', sends)
      | SockUnexpected # recvs' \<Rightarrow>
          ([SetTimeout 600, Close], Stop (Raised Unexpected), recvs', sends))"

definition before :: "action list \<Rightarrow> action list \<times> final \<Rightarrow> action list \<times> final" where
  "before acts r = (acts @ fst r, snd r)"

text \<open>The \<open>while True\<close> loop of \<open>status_listener\<close>.\<close>

function listen_loop ::
  "handler option \<Rightarrow> bytes sock_result list \<Rightarrow> unit sock_result list \<Rightarrow> action list \<times> final" where
  "listen_loop statusUpdateCallback recvs sends =
     (case receive recvs sends of
        (acts, Stop f, recvs', sends') \<Rightarrow> (acts, f)
      | (acts, Msg msg, recvs', sends') \<Rightarrow>
          (case process_msg statusUpdateCallback msg of
             (acts', Some e) \<Rightarrow> (acts @ acts', Raised e)
           | (acts', None) \<Rightarrow>
               before (acts @ acts') (listen_loop statusUpdateCallback recvs' sends')))"
  by pat_completeness auto
termination
  by (relation "measure (\<lambda>(cb, recvs, sends). length recvs)")
     (auto simp: receive_def probe_def
           split: list.splits sock_result.splits prod.splits if_splits sum.splits)

declare listen_loop.simps [simp del]

text \<open>
  Line 180 onwards, with the loop that follows: what the listener does once a
  message is in \<open>msg\<close>.
\<close>

definition after_receive ::
  "handler option \<Rightarrow> bytes \<Rightarrow> bytes sock_result list \<Rightarrow> unit sock_result list \<Rightarrow>
   action list \<times> final" where
  "after_receive statusUpdateCallback msg recvs sends =
     (case process_msg statusUpdateCallback msg of
        (acts, Some e) \<Rightarrow> (acts, Raised e)
      | (acts, None) \<Rightarrow> before acts (listen_loop statusUpdateCallback recvs sends))"


text \<open>A word of the wire protocol: one or more of \<open>A\<close> to \<open>Z\<close> and \<open>0\<close> to \<open>9\<close>.\<close>

definition is_token :: "string \<Rightarrow> bool" where
  "is_token s = (s \<noteq> [] \<and> list_all (\<lambda>c. token_char (of_char c)) s)"

text \<open>
  \<open>status_listener\<close>: the connection is opened first; a socket error there ends the
  listener with \<open>False\<close>, anything else is raised again.
\<close>

definition status_listener ::
  "string \<Rightarrow> handler option \<Rightarrow> unit sock_result \<Rightarrow> bytes sock_result list \<Rightarrow>
   unit sock_result list \<Rightarrow> action list \<times> final" where
  "status_listener controllerAddr statusUpdateCallback connected recvs sends =
     (case connected of
        Done u \<Rightarrow>
          before [Log Debug, Connect controllerAddr CONTROLLER_TCP_PORT]
            (listen_loop statusUpdateCallback recvs sends)
      | SockTimeout \<Rightarrow>
          ([Log Debug, Connect controllerAddr CONTROLLER_TCP_PORT, Log Error, Close],
           Returned False)
      | SockError \<Rightarrow>
          ([Log Debug, Connect controllerAddr CONTROLLER_TCP_PORT, Log Error, Close],
           Returned False)
      | SockUnexpected \<Rightarrow>
          ([Log Debug, Connect controllerAddr CONTROLLER_TCP_PORT, Close], Raised Unexpected))"

section \<open>HTTP command interface (autelisapi.py)\<close>

text \<open>
  \<open>requests.get\<close> returns a response or raises; the handlers of the wrapper tell
  \<open>Timeout\<close> and \<open>ConnectionError\<close> from everything else. The network is a function
  from the request to its outcome; \<open>raise_for_status\<close> raises \<open>HTTPError\<close> for
  the status codes 400 to 599. The XML parser is the library's and is a parameter.
\<close>

record AutelisInterface =
  controllerAddr :: string
  userName :: string
  password :: string

record request =
  url :: string
  auth :: "string \<times> string"
  timeout_ms :: nat

record response =
  status_code :: nat
  response_text :: string

datatype http_result = Responded response | ReqTimeout | ReqConnectionError | ReqUnexpected

datatype http_exn = Timeout | ConnectionError | HTTPError | OtherException

datatype xml = Element (tag: string) (content: "string option") (children: "xml list")

datatype http_action = HttpLog level | HttpGet request

text \<open>The requests among the effects, in order.\<close>

fun gets :: "http_action list \<Rightarrow> request list" where
  "gets [] = []"
| "gets (HttpGet r # acts) = r # gets acts"
| "gets (HttpLog l # acts) = gets acts"

definition STATUS_ENDPOINT :: string where
  "STATUS_ENDPOINT = ''status.xml''"

definition COMMAND_ENDPOINT :: string where
  "COMMAND_ENDPOINT = ''set.cgi''"

definition AUTELIS_ON_VALUE :: int where
  "AUTELIS_ON_VALUE = 1"

definition AUTELIS_OFF_VALUE :: int where
  "AUTELIS_OFF_VALUE = 0"

definition requests_get :: "(request \<Rightarrow> http_result) \<Rightarrow> request \<Rightarrow> http_exn + response" where
  "requests_get net req =
     (case net req of
        Responded r \<Rightarrow> Inr r
      | ReqTimeout \<Rightarrow> Inl Timeout
      | ReqConnectionError \<Rightarrow> Inl ConnectionError
      | ReqUnexpected \<Rightarrow> Inl OtherException)"

definition raise_for_status :: "response \<Rightarrow> http_exn + response" where
  "raise_for_status r =
     (if 400 \<le> status_code r \<and> status_code r < 600 then Inl HTTPError else Inr r)"

text \<open>The body of the \<open>try\<close> of both methods: the GET, then \<open>raise_for_status\<close>.\<close>

definition try_get :: "(request \<Rightarrow> http_result) \<Rightarrow> request \<Rightarrow> http_exn + response" where
  "try_get net req =
     (case requests_get net req of Inl e \<Rightarrow> Inl e | Inr r \<Rightarrow> raise_for_status r)"

definition status_request :: "AutelisInterface \<Rightarrow> request" where
  "status_request self =
     \<lparr>url = ''http://'' @ controllerAddr self @ ''/'' @ STATUS_ENDPOINT,
      auth = (userName self, password self),
      timeout_ms = 3050\<rparr>"

definition get_status ::
  "AutelisInterface \<Rightarrow> (request \<Rightarrow> http_result) \<Rightarrow> (string \<Rightarrow> exn + xml) \<Rightarrow>
   http_action list \<times> (exn + xml option)" where
  "get_status self net fromstring =
     (case try_get net (status_request self) of
        Inl Timeout \<Rightarrow>
          ([HttpLog Debug, HttpGet (status_request self), HttpLog Warning], Inr None)
      | Inl ConnectionError \<Rightarrow>
          ([HttpLog Debug, HttpGet (status_request self), HttpLog Warning], Inr None)
      | Inl HTTPError \<Rightarrow>
          ([HttpLog Debug, HttpGet (status_request self), HttpLog Warning], Inr None)
      | Inl OtherException \<Rightarrow>
          ([HttpLog Debug, HttpGet (status_request self), HttpLog Error], Inl Unexpected)
      | Inr response \<Rightarrow>
          (case fromstring (response_text response) of
             Inl e \<Rightarrow> ([HttpLog Debug, HttpGet (status_request self)], Inl e)
           | Inr statusXML \<Rightarrow>
               if tag statusXML = ''response''
               then ([HttpLog Debug, HttpGet (status_request self)], Inr (Some statusXML))
               else ([HttpLog Debug, HttpGet (status_request self), HttpLog Warning],
                     Inr None)))"

text \<open>
  \<open>send_command\<close>: the value is an integer here, as every caller passes one, so
  that \<open>str(int(value))\<close> is its decimal text.
\<close>

definition command_request :: "AutelisInterface \<Rightarrow> string \<Rightarrow> string \<Rightarrow> int \<Rightarrow> request" where
  "command_request self element label val =
     \<lparr>url = ''http://'' @ controllerAddr self @ ''/'' @ COMMAND_ENDPOINT
              @ ''?name='' @ element @ ''&'' @ label @ ''='' @ py_str val,
      auth = (userName self, password self),
      timeout_ms = 3050\<rparr>"

definition send_command ::
  "AutelisInterface \<Rightarrow> (request \<Rightarrow> http_result) \<Rightarrow> string \<Rightarrow> string \<Rightarrow> int \<Rightarrow>
   http_action list \<times> (exn + bool)" where
  "send_command self net element label val =
     (case try_get net (command_request self element label val) of
        Inl Timeout \<Rightarrow>
          ([HttpLog Debug, HttpGet (command_request self element label val), HttpLog Warning],
           Inr False)
      | Inl ConnectionError \<Rightarrow>
          ([HttpLog Debug, HttpGet (command_request self element label val), HttpLog Warning],
           Inr False)
      | Inl HTTPError \<Rightarrow>
          ([HttpLog Debug, HttpGet (command_request self element label val), HttpLog Warning],
           Inr False)
      | Inl OtherException \<Rightarrow>
          ([HttpLog Debug, HttpGet (command_request self element label val), HttpLog Error],
           Inl Unexpected)
      | Inr response \<Rightarrow>
          ([HttpLog Debug, HttpGet (command_request self element label val), HttpLog Debug],
           Inr True))"

definition on ::
  "AutelisInterface \<Rightarrow> (request \<Rightarrow> http_result) \<Rightarrow> string \<Rightarrow> http_action list \<times> (exn + bool)" where
  "on self net element = send_command self net element ''value'' AUTELIS_ON_VALUE"

definition off ::
  "AutelisInterface \<Rightarrow> (request \<Rightarrow> http_result) \<Rightarrow> string \<Rightarrow> http_action list \<times> (exn + bool)" where
  "off self net element = send_command self net element ''value'' AUTELIS_OFF_VALUE"

definition set_temp ::
  "AutelisInterface \<Rightarrow> (request \<Rightarrow> http_result) \<Rightarrow> string \<Rightarrow> int \<Rightarrow>
   http_action list \<times> (exn + bool)" where
  "set_temp self net element val = send_command self net element ''temp'' val"

definition set_heat_setting ::
  "AutelisInterface \<Rightarrow> (request \<Rightarrow> http_result) \<Rightarrow> string \<Rightarrow> int \<Rightarrow>
   http_action list \<times> (exn + bool)" where
  "set_heat_setting self net element val = send_command self net element ''hval'' val"

section \<open>Thermostat drivers of the node server (autelis-poly.py)\<close>

text \<open>
  The drivers of a node are a map from the driver name to its value; \<open>setDriver\<close>
  stores a value. The numbers are the hub's codes, named in the comments of the
  source: thermostat mode 0 Off, 1 Heat, 3 Auto, 4 Aux/Emergency Heat; heat/cool
  state 0 Idle, 1 Heating, 7 Aux Heat.
\<close>

type_synonym drivers = "string \<rightharpoonup> int"

datatype thermo_mode = Off | Heat | Auto | AuxHeat

datatype heat_cool_state = Idle | Heating | AuxHeating

definition mode_code :: "thermo_mode \<Rightarrow> int" where
  "mode_code m = (case m of Off \<Rightarrow> 0 | Heat \<Rightarrow> 1 | Auto \<Rightarrow> 3 | AuxHeat \<Rightarrow> 4)"

definition hcs_code :: "heat_cool_state \<Rightarrow> int" where
  "hcs_code h = (case h of Idle \<Rightarrow> 0 | Heating \<Rightarrow> 1 | AuxHeating \<Rightarrow> 7)"

definition setDriver :: "string \<Rightarrow> int \<Rightarrow> drivers \<Rightarrow> drivers" where
  "setDriver driver val ds = ds(driver \<mapsto> val)"

definition truthy :: "int \<Rightarrow> bool" where
  "truthy i = (i \<noteq> 0)"

definition update_mode :: "int \<Rightarrow> drivers \<Rightarrow> drivers" where
  "update_mode setting ds =
     (if setting = 1 then setDriver ''CLIMD'' 1 ds
      else if setting = 2 then setDriver ''CLIMD'' 3 ds
      else if setting = 3 then setDriver ''CLIMD'' 4 ds
      else setDriver ''CLIMD'' 0 ds)"

definition update_hcs :: "string \<Rightarrow> int \<Rightarrow> drivers \<Rightarrow> drivers" where
  "update_hcs address htstatus ds =
     (if address = ''spaht'' then
        (if truthy (htstatus AND 2) then setDriver ''CLIHCS'' 1 ds
         else if truthy (htstatus AND 8) then setDriver ''CLIHCS'' 7 ds
         else setDriver ''CLIHCS'' 0 ds)
      else if address = ''poolht'' then
        (if truthy (htstatus AND 1) then setDriver ''CLIHCS'' 1 ds
         else if truthy (htstatus AND 4) then setDriver ''CLIHCS'' 7 ds
         else setDriver ''CLIHCS'' 0 ds)
      else ds)"

definition update_thermo_drivers :: "string \<Rightarrow> int \<Rightarrow> int \<Rightarrow> drivers \<Rightarrow> drivers" where
  "update_thermo_drivers address setting htstatus ds =
     update_hcs address htstatus (update_mode setting ds)"

section \<open>Properties\<close>

subsection \<open>The listener loop, one receive at a time\<close>

lemma before_before: "before a (before b r) = before (a @ b) r"
  by (simp add: before_def)

lemma before_Nil: "before [] r = r"
  by (simp add: before_def)

lemma listen_loop_Done:
  "listen_loop cb (Done msg # recvs) sends = before [SetTimeout 600] (after_receive cb msg recvs sends)"
  by (subst listen_loop.simps)
     (simp add: receive_def after_receive_def before_def split: prod.splits option.splits)

lemma listen_loop_Nil:
  "listen_loop cb [] sends = ([SetTimeout 600], Blocked)"
  by (subst listen_loop.simps) (simp add: receive_def)

lemma listen_loop_probe_reply:
  "listen_loop cb (SockTimeout # Done msg # recvs) (Done u # sends) =
     (if bytes_in TEST_RTN_SUCCESS msg
      then before [SetTimeout 600, SetTimeout 2, Send TEST_TCP_MSG] (after_receive cb msg recvs sends)
      else (case decode msg of
              Inl e \<Rightarrow> ([SetTimeout 600, SetTimeout 2, Send TEST_TCP_MSG], Raised e)
            | Inr text \<Rightarrow>
                ([SetTimeout 600, SetTimeout 2, Send TEST_TCP_MSG, Log Error, Close],
                 Returned False)))"
  by (subst listen_loop.simps)
     (simp add: receive_def probe_def after_receive_def before_def
           split: prod.splits option.splits sum.splits)

lemma listen_loop_probe_fail:
  "listen_loop cb (SockTimeout # SockTimeout # recvs) (Done u # sends) =
     ([SetTimeout 600, SetTimeout 2, Send TEST_TCP_MSG, Log Error, Close], Returned False)"
  "listen_loop cb (SockTimeout # SockError # recvs) (Done u # sends) =
     ([SetTimeout 600, SetTimeout 2, Send TEST_TCP_MSG, Log Error, Close], Returned False)"
  "listen_loop cb (SockTimeout # recvs) (SockTimeout # sends) =
     ([SetTimeout 600, SetTimeout 2, Send TEST_TCP_MSG, Log Error, Close], Returned False)"
  "listen_loop cb (SockTimeout # recvs) (SockError # sends) =
     ([SetTimeout 600, SetTimeout 2, Send TEST_TCP_MSG, Log Error, Close], Returned False)"
  by (subst listen_loop.simps, simp add: receive_def probe_def)+

lemma listen_loop_error:
  "listen_loop cb (SockError # recvs) sends = ([SetTimeout 600, Log Error, Close], Returned False)"
  "listen_loop cb (SockUnexpected # recvs) sends = ([SetTimeout 600, Close], Raised Unexpected)"
  by (subst listen_loop.simps, simp add: receive_def probe_def)+

lemma process_msg_empty: "process_msg cb [] = ([], None)"
  by (simp add: process_msg_def)


lemma re_lit_append: "re_lit p (p @ s) k = k s"
  by (induction p) auto

lemma re_star_run:
  "list_all P run \<Longrightarrow> (case s of [] \<Rightarrow> True | x # xs \<Rightarrow> \<not> P x) \<Longrightarrow> k (acc @ run) s = Some r \<Longrightarrow>
   re_star P acc (run @ s) k = Some r"
proof (induction run arbitrary: acc)
  case Nil
  then show ?case by (cases s) auto
next
  case (Cons y ys)
  from Cons.prems have "re_star P (acc @ [y]) (ys @ s) k = Some r"
    by (intro Cons.IH) auto
  with Cons.prems show ?case by simp
qed

lemma re_plus_run:
  "run \<noteq> [] \<Longrightarrow> list_all P run \<Longrightarrow> (case s of [] \<Rightarrow> True | x # xs \<Rightarrow> \<not> P x) \<Longrightarrow>
   k run s = Some r \<Longrightarrow> re_plus P (run @ s) k = Some r"
  by (cases run) (auto intro: re_star_run)

subsection \<open>A complete status line matches the pattern\<close>

lemma utf8_decode_ascii_append:
  "list_all (\<lambda>n. n < 128) ns \<Longrightarrow>
   utf8_decode (ns @ bs) = (case utf8_decode bs of None \<Rightarrow> None | Some r \<Rightarrow> Some (ns @ r))"
  by (induction ns) (auto split: option.splits)

lemma token_char_ascii: "token_char n \<Longrightarrow> n < 128"
  by (auto simp: token_char_def)

lemma is_token_ascii: "is_token s \<Longrightarrow> list_all (\<lambda>n. n < 128) (ustr s)"
  by (auto simp: is_token_def ustr_def list_all_iff dest: token_char_ascii)

lemma to_str_ustr: "to_str (ustr s) = s"
  by (simp add: to_str_def ustr_def comp_def)

lemma match_tail:
  "sp \<in> set ['''', '' '', '' F'', '' C''] \<Longrightarrow>
   re_opt space_char (ustr sp @ ustr [CR, LF] @ rest) (\<lambda>s5.
     re_opt unit_char s5 (\<lambda>s6. re_lit (ustr [CR, LF]) s6 (\<lambda>s7. Some r))) = Some r"
  by (auto simp: ustr_def CR_def LF_def space_char_def unit_char_def)

lemma tail_not_token:
  "sp \<in> set ['''', '' '', '' F'', '' C''] \<Longrightarrow>
   (case ustr sp @ ustr [CR, LF] @ rest of [] \<Rightarrow> True | x # xs \<Rightarrow> \<not> token_char x)"
  by (auto simp: ustr_def CR_def LF_def token_char_def)

lemma status_update_match_line:
  assumes "is_token cmd" "is_token val" "sp \<in> set ['''', '' '', '' F'', '' C'']"
  shows "status_update_match (ustr (''!00 '' @ cmd @ ''='' @ val @ sp @ [CR, LF]) @ rest)
         = Some (ustr cmd, ustr val)"
proof -
  let ?tail = "ustr sp @ ustr [CR, LF] @ rest"
  let ?k2 = "\<lambda>v s4. re_opt space_char s4 (\<lambda>s5.
     re_opt unit_char s5 (\<lambda>s6. re_lit (ustr [CR, LF]) s6 (\<lambda>s7. Some (ustr cmd, v))))"
  have val: "re_plus token_char (ustr val @ ?tail) ?k2 = Some (ustr cmd, ustr val)"
    using assms by (intro re_plus_run tail_not_token match_tail)
      (auto simp: is_token_def ustr_def list_all_iff)
  let ?k1 = "\<lambda>c s2. re_lit (ustr ''='') s2 (\<lambda>s3. re_plus token_char s3 (\<lambda>v s4.
     re_opt space_char s4 (\<lambda>s5.
     re_opt unit_char s5 (\<lambda>s6. re_lit (ustr [CR, LF]) s6 (\<lambda>s7. Some (c, v))))))"
  have "re_plus token_char (ustr cmd @ (ustr ''='' @ ustr val @ ?tail)) ?k1 = Some (ustr cmd, ustr val)"
  proof (rule re_plus_run)
    show "ustr cmd \<noteq> []" using assms by (simp add: is_token_def ustr_def)
    show "list_all token_char (ustr cmd)" using assms by (simp add: is_token_def ustr_def list_all_iff)
    show "case ustr ''='' @ ustr val @ ?tail of [] \<Rightarrow> True | x # xs \<Rightarrow> \<not> token_char x"
      by (simp add: ustr_def token_char_def)
    show "?k1 (ustr cmd) (ustr ''='' @ ustr val @ ?tail) = Some (ustr cmd, ustr val)"
      using val by (simp add: re_lit_append)
  qed
  then have "re_lit (ustr ''!00 '') (ustr ''!00 '' @ ustr cmd @ ustr ''='' @ ustr val @ ?tail)
      (\<lambda>s1. re_plus token_char s1 ?k1) = Some (ustr cmd, ustr val)"
    by (simp only: re_lit_append)
  moreover have "ustr (''!00 '' @ cmd @ ''='' @ val @ sp @ [CR, LF]) @ rest
      = ustr ''!00 '' @ ustr cmd @ ustr ''='' @ ustr val @ ?tail"
    by (simp add: ustr_def)
  ultimately show ?thesis
    by (simp only: status_update_match_def)
qed

lemma decode_line:
  assumes "is_token cmd" "is_token val" "sp \<in> set ['''', '' '', '' F'', '' C'']"
    and "decode rest = Inr r"
  shows "decode ((''!00 '' @ cmd @ ''='' @ val @ sp @ [CR, LF]) @ rest)
         = Inr (ustr (''!00 '' @ cmd @ ''='' @ val @ sp @ [CR, LF]) @ r)"
proof -
  have "list_all (\<lambda>n. n < 128) (ustr (''!00 '' @ cmd @ ''='' @ val @ sp @ [CR, LF]))"
    using assms(1-3) is_token_ascii [of cmd] is_token_ascii [of val]
    by (auto simp: ustr_def CR_def LF_def)
  then have "utf8_decode (map of_char ((''!00 '' @ cmd @ ''='' @ val @ sp @ [CR, LF]) @ rest))
      = (case utf8_decode (map of_char rest) of None \<Rightarrow> None
         | Some r \<Rightarrow> Some (ustr (''!00 '' @ cmd @ ''='' @ val @ sp @ [CR, LF]) @ r))"
    using utf8_decode_ascii_append [of "ustr (''!00 '' @ cmd @ ''='' @ val @ sp @ [CR, LF])" "map of_char rest"]
    by (simp add: ustr_def)
  with assms(4) show ?thesis
    by (auto simp: decode_def split: option.splits)
qed

lemma process_msg_line:
  assumes "is_token cmd" "is_token val" "sp \<in> set ['''', '' '', '' F'', '' C'']"
    and "decode rest = Inr r" and "cmd_to_element cmd = Inr element"
  shows "process_msg (Some cb) ((''!00 '' @ cmd @ ''='' @ val @ sp @ [CR, LF]) @ rest)
         = ([Log Debug, Callback element (val_to_text val)]
              @ (if cb element (val_to_text val) then [] else [Log Warning]), None)"
  using decode_line [OF assms(1-4)] status_update_match_line [OF assms(1-3), of r] assms(5)
  by (simp add: process_msg_def to_str_ustr)

lemma decode_Nil: "decode [] = Inr []"
  by (simp add: decode_def)

subsection \<open>Decimal text and \<open>int\<close>\<close>

lemma digit_char_props: "d < 10 \<Longrightarrow> is_digit (char_of (48 + d)) \<and> digit_val (char_of (48 + d)) = d"
  by (simp add: is_digit_def digit_val_def)

lemma str_nat_digits: "str_nat n \<noteq> [] \<and> list_all is_digit (str_nat n)"
proof (induction n rule: str_nat.induct)
  case (1 n)
  show ?case
  proof (cases "n < 10")
    case True
    then show ?thesis by (subst (1 2) str_nat.simps) (simp add: digit_char_props)
  next
    case False
    with 1 show ?thesis
      by (subst (1 2) str_nat.simps) (simp add: digit_char_props)
  qed
qed

lemma int_digits_all:
  "list_all is_digit ds \<Longrightarrow>
   int_digits acc ds = Some (foldl (\<lambda>a c. 10 * a + digit_val c) acc ds)"
  by (induction ds arbitrary: acc) auto

lemma int_unsigned_all:
  "ds \<noteq> [] \<Longrightarrow> list_all is_digit ds \<Longrightarrow>
   int_unsigned ds = Some (foldl (\<lambda>a c. 10 * a + digit_val c) 0 ds)"
  by (cases ds) (auto simp: int_unsigned_def int_digits_all)

lemma foldl_str_nat: "foldl (\<lambda>a c. 10 * a + digit_val c) 0 (str_nat n) = n"
proof (induction n rule: str_nat.induct)
  case (1 n)
  show ?case
  proof (cases "n < 10")
    case True
    then show ?thesis by (subst str_nat.simps) (simp add: digit_char_props)
  next
    case False
    with 1 show ?thesis
      by (subst str_nat.simps) (simp add: digit_char_props)
  qed
qed

lemma digit_not_space: "is_digit c \<Longrightarrow> \<not> is_space c"
  by (auto simp: is_digit_def is_space_def Let_def)

lemma digit_not_sign: "is_digit c \<Longrightarrow> c \<noteq> CHR ''-'' \<and> c \<noteq> CHR ''+''"
  by (auto simp: is_digit_def)

lemma strip_digits: "ds \<noteq> [] \<Longrightarrow> list_all is_digit ds \<Longrightarrow> strip ds = ds"
proof -
  assume ne: "ds \<noteq> []" and all: "list_all is_digit ds"
  from ne all have "\<not> is_space (hd ds)"
    by (cases ds) (auto dest: digit_not_space)
  with ne have a: "dropWhile is_space ds = ds"
    by (cases ds) auto
  from ne all have "\<not> is_space (hd (rev ds))"
    by (cases ds rule: rev_cases) (auto dest: digit_not_space)
  with ne have "dropWhile is_space (rev ds) = rev ds"
    by (cases "rev ds") auto
  with a show ?thesis by (simp add: strip_def)
qed

lemma py_int_digits:
  "ds \<noteq> [] \<Longrightarrow> list_all is_digit ds \<Longrightarrow>
   py_int ds = Inr (int (foldl (\<lambda>a c. 10 * a + digit_val c) 0 ds))"
  by (cases ds) (auto simp: py_int_def strip_digits int_signed_def int_unsigned_all
      dest: digit_not_sign)

lemma py_int_str_nat: "py_int (str_nat n) = Inr (int n)"
  using str_nat_digits [of n] by (simp add: py_int_digits foldl_str_nat)

lemma cmd_to_element_circuit_number:
  "cmd_to_element (''CIR'' @ str_nat n) =
     Inr (if 41 \<le> n \<and> n \<le> 50 then ''feature'' @ str_nat (n - 40) else ''circuit'' @ str_nat n)"
proof -
  have "41 \<le> n \<Longrightarrow> nat (int n - 40) = n - 40" by simp
  then show ?thesis
    by (auto simp: cmd_to_element_def py_int_str_nat py_str_def numeral_3_eq_3)
qed

subsection \<open>What a match of the pattern needs\<close>








subsection \<open>A part of a status line does not match\<close>










subsection \<open>Command words that start with \<open>CIR\<close>\<close>

lemma token_no_space: "list_all (\<lambda>c. token_char (of_char c)) s \<Longrightarrow> strip s = s"
proof (cases "s = []")
  case True
  then show ?thesis by (simp add: strip_def)
next
  case False
  assume all: "list_all (\<lambda>c. token_char (of_char c)) s"
  have ns: "token_char (of_char c) \<Longrightarrow> \<not> is_space c" for c
    by (auto simp: token_char_def is_space_def Let_def)
  from False all have "\<not> is_space (hd s)"
    by (cases s) (auto dest: ns)
  with False have a: "dropWhile is_space s = s"
    by (cases s) auto
  from False all have "\<not> is_space (hd (rev s))"
    by (cases s rule: rev_cases) (auto dest: ns)
  with False have "dropWhile is_space (rev s) = rev s"
    by (cases "rev s") auto
  with a show ?thesis by (simp add: strip_def)
qed

lemma int_digits_token_None:
  "list_all (\<lambda>c. token_char (of_char c)) ds \<Longrightarrow> \<not> list_all is_digit ds \<Longrightarrow>
   int_digits acc ds = None"
  by (induction ds arbitrary: acc) (auto simp: token_char_def)

lemma py_int_token:
  assumes "list_all (\<lambda>c. token_char (of_char c)) s"
  shows "py_int s = (if s \<noteq> [] \<and> list_all is_digit s
                     then Inr (int (foldl (\<lambda>a c. 10 * a + digit_val c) 0 s))
                     else Inl ValueError)"
proof (cases "s \<noteq> [] \<and> list_all is_digit s")
  case True
  then show ?thesis by (simp add: py_int_digits)
next
  case False
  have sign: "token_char (of_char c) \<Longrightarrow> c \<noteq> CHR ''-'' \<and> c \<noteq> CHR ''+''" for c
    by (auto simp: token_char_def)
  from False assms have "int_signed s = None"
    by (cases s) (auto simp: int_signed_def int_unsigned_def int_digits_token_None dest: sign)
  with False assms show ?thesis
    by (simp add: py_int_def token_no_space)
qed

lemma cmd_to_element_raises_iff:
  assumes "list_all (\<lambda>c. token_char (of_char c)) n"
  shows "cmd_to_element (''CIR'' @ n) = Inl ValueError \<longleftrightarrow> n = [] \<or> \<not> list_all is_digit n"
  using assms by (auto simp: cmd_to_element_def py_int_token numeral_3_eq_3)

lemma listen_loop_zero_bytes:
  "listen_loop cb (replicate n (Done []) @ recvs) sends
   = before (replicate n (SetTimeout 600)) (listen_loop cb recvs sends)"
proof (induction n)
  case 0
  then show ?case by (simp add: before_def)
next
  case (Suc n)
  then show ?case
    by (simp add: listen_loop_Done after_receive_def process_msg_empty before_def)
qed

subsection \<open>The named command words and the feature range\<close>

lemma cmd_to_element_named:
  "cmd_to_element ''AIRTMP'' = Inr ''airtemp'' \<and> cmd_to_element ''SPATMP'' = Inr ''spatemp''
   \<and> cmd_to_element ''SOLHT'' = Inr ''solarht'' \<and> cmd_to_element ''SOLTMP'' = Inr ''solartemp''
   \<and> cmd_to_element ''WFALL'' = Inr ''waterfall'' \<and> cmd_to_element ''CLEAN'' = Inr ''cleaner''
   \<and> cmd_to_element ''OPTIONS'' = Inr ''dip'' \<and> cmd_to_element ''UNITS'' = Inr ''tempunits''
   \<and> cmd_to_element ''POOLTMP'' = Inr ''pooltemp'' \<and> cmd_to_element ''POOLTMP2'' = Inr ''pooltemp''"
  by (simp add: cmd_to_element_def)

lemma cmd_to_element_features:
  "cmd_to_element ''CIR41'' = Inr ''feature1'' \<and> cmd_to_element ''CIR42'' = Inr ''feature2''
   \<and> cmd_to_element ''CIR43'' = Inr ''feature3'' \<and> cmd_to_element ''CIR44'' = Inr ''feature4''
   \<and> cmd_to_element ''CIR45'' = Inr ''feature5'' \<and> cmd_to_element ''CIR46'' = Inr ''feature6''
   \<and> cmd_to_element ''CIR47'' = Inr ''feature7'' \<and> cmd_to_element ''CIR48'' = Inr ''feature8''
   \<and> cmd_to_element ''CIR49'' = Inr ''feature9'' \<and> cmd_to_element ''CIR50'' = Inr ''feature10''
   \<and> cmd_to_element ''CIR1'' = Inr ''circuit1'' \<and> cmd_to_element ''CIR40'' = Inr ''circuit40''
   \<and> cmd_to_element ''CIR51'' = Inr ''circuit51''"
  by code_simp

lemma cmd_to_element_other:
  "take 3 cmd \<noteq> ''CIR'' \<Longrightarrow>
   cmd \<notin> set [''AIRTMP'', ''SPATMP'', ''SOLHT'', ''SOLTMP'', ''WFALL'', ''CLEAN'', ''OPTIONS'',
               ''UNITS'', ''POOLTMP'', ''POOLTMP2''] \<Longrightarrow>
   cmd_to_element cmd = Inr (lower cmd)"
  by (simp add: cmd_to_element_def)

lemma inj_mode_code: "inj mode_code"
  by (auto simp: inj_def mode_code_def split: thermo_mode.splits)

section \<open>The claims\<close>

text \<open>
  The idle probe on the replies that decode as UTF-8, for every callback and every
  rest of the two scripts: a reply without \<^verbatim>\<open>!00 OPMODE=\<close> is logged, the socket
  is closed once and \<open>False\<close> is returned; a reply with it is processed as a message,
  and when that raises nothing the listener is back in the loop.
\<close>

lemma idle_probe_decodable_reply:
  assumes "decode msg = Inr text"
  shows "listen_loop cb (SockTimeout # Done msg # recvs) (Done u # sends) =
     (if bytes_in TEST_RTN_SUCCESS msg
      then (case process_msg cb msg of
              (acts, Some e) \<Rightarrow>
                ([SetTimeout 600, SetTimeout 2, Send TEST_TCP_MSG] @ acts, Raised e)
            | (acts, None) \<Rightarrow>
                before ([SetTimeout 600, SetTimeout 2, Send TEST_TCP_MSG] @ acts)
                  (listen_loop cb recvs sends))
      else ([SetTimeout 600, SetTimeout 2, Send TEST_TCP_MSG, Log Error, Close],
            Returned False))"
  using assms
  by (simp add: listen_loop_probe_reply after_receive_def before_def
           split: prod.splits option.splits)

lemma idle_probe_no_reply:
  "listen_loop cb (SockTimeout # SockTimeout # recvs) (Done u # sends) =
     ([SetTimeout 600, SetTimeout 2, Send TEST_TCP_MSG, Log Error, Close], Returned False)
   \<and> listen_loop cb (SockTimeout # SockError # recvs) (Done u # sends) =
     ([SetTimeout 600, SetTimeout 2, Send TEST_TCP_MSG, Log Error, Close], Returned False)
   \<and> listen_loop cb (SockTimeout # recvs) (SockTimeout # sends) =
     ([SetTimeout 600, SetTimeout 2, Send TEST_TCP_MSG, Log Error, Close], Returned False)
   \<and> listen_loop cb (SockTimeout # recvs) (SockError # sends) =
     ([SetTimeout 600, SetTimeout 2, Send TEST_TCP_MSG, Log Error, Close], Returned False)
   \<and> TEST_TCP_MSG = ''#OPMODE?'' @ [CHR 0x0D]"
  by (simp add: listen_loop_probe_fail TEST_TCP_MSG_def CR_def)

text \<open>
  C1. The idle probe does not always end with the socket closed and \<open>False\<close>
  returned, or with the listener back in the loop. The receive times out,
  the test message is sent, and the reply is the one byte \<open>0xFF\<close>: it lacks
  \<^verbatim>\<open>!00 OPMODE=\<close>, but the listener neither closes the socket nor returns
  \<open>False\<close>, since decoding the reply for the error message raises
  \<open>UnicodeDecodeError\<close> first. And the reply \<^verbatim>\<open>!00 OPMODE=\<close> followed by the byte
  \<open>0xFF\<close> contains the expected text, but the listener does not return to the
  receive: decoding the reply for the match raises the same exception.
\<close>

theorem idle_probe_reply_not_utf8:
  "\<not> bytes_in TEST_RTN_SUCCESS [CHR 0xFF]
   \<and> listen_loop None [SockTimeout, Done [CHR 0xFF]] [Done ()] =
       ([SetTimeout 600, SetTimeout 2, Send TEST_TCP_MSG], Raised UnicodeDecodeError)
   \<and> bytes_in TEST_RTN_SUCCESS (''!00 OPMODE='' @ [CHR 0xFF])
   \<and> listen_loop None [SockTimeout, Done (''!00 OPMODE='' @ [CHR 0xFF])] [Done ()] =
       ([SetTimeout 600, SetTimeout 2, Send TEST_TCP_MSG], Raised UnicodeDecodeError)"
  by code_simp

text \<open>
  C2. \<open>cmd_to_element\<close> is not total: the command word \<^verbatim>\<open>CIRX\<close> starts with
  \<^verbatim>\<open>CIR\<close>, \<open>int\<close> is applied to \<^verbatim>\<open>X\<close> and raises \<open>ValueError\<close>, so the word is
  not lower-cased as the other unknown words are. The line \<^verbatim>\<open>!00 CIRX=1\<close> matches
  the pattern of the listener, which then ends with that exception.
\<close>

theorem cmd_to_element_raises_on_CIRX:
  "cmd_to_element ''CIRX'' = Inl ValueError
   \<and> listen_loop (Some (\<lambda>element val. True)) [Done (''!00 CIRX=1'' @ [CR, LF])] [] =
       ([SetTimeout 600, Log Debug], Raised ValueError)"
  by code_simp

text \<open>
  C3. The result of \<open>get_status\<close>, by the outcome of the GET: a timeout, a connection
  error and an HTTP error status (400 to 599) give \<open>None\<close> without an exception;
  so does a body that parses to a document whose root tag is not \<^verbatim>\<open>response\<close>;
  an unexpected exception of the GET and an exception of the parser are raised.
\<close>

theorem get_status_result:
  "snd (get_status self net fromstring) =
     (case net (status_request self) of
        ReqTimeout \<Rightarrow> Inr None
      | ReqConnectionError \<Rightarrow> Inr None
      | ReqUnexpected \<Rightarrow> Inl Unexpected
      | Responded r \<Rightarrow>
          if 400 \<le> status_code r \<and> status_code r < 600 then Inr None
          else (case fromstring (response_text r) of
                  Inl e \<Rightarrow> Inl e
                | Inr x \<Rightarrow> if tag x = ''response'' then Inr (Some x) else Inr None))"
  by (simp add: get_status_def try_get_def requests_get_def raise_for_status_def
           split: http_result.splits sum.splits)

theorem get_status_result_witness:
  "snd (get_status \<lparr>controllerAddr = ''10.0.0.5'', userName = ''admin'', password = ''pw''\<rparr>
          (\<lambda>q. ReqTimeout) (\<lambda>s. Inl ParseError)) = Inr None
   \<and> snd (get_status \<lparr>controllerAddr = ''10.0.0.5'', userName = ''admin'', password = ''pw''\<rparr>
          (\<lambda>q. Responded \<lparr>status_code = 503, response_text = ''''\<rparr>) (\<lambda>s. Inl ParseError))
       = Inr None
   \<and> snd (get_status \<lparr>controllerAddr = ''10.0.0.5'', userName = ''admin'', password = ''pw''\<rparr>
          (\<lambda>q. Responded \<lparr>status_code = 200, response_text = ''<html/>''\<rparr>)
          (\<lambda>s. Inr (Element ''html'' None []))) = Inr None"
  using
    get_status_result [of "\<lparr>controllerAddr = ''10.0.0.5'', userName = ''admin'', password = ''pw''\<rparr>"
      "\<lambda>q. ReqTimeout" "\<lambda>s. Inl ParseError"]
    get_status_result [of "\<lparr>controllerAddr = ''10.0.0.5'', userName = ''admin'', password = ''pw''\<rparr>"
      "\<lambda>q. Responded \<lparr>status_code = 503, response_text = ''''\<rparr>" "\<lambda>s. Inl ParseError"]
    get_status_result [of "\<lparr>controllerAddr = ''10.0.0.5'', userName = ''admin'', password = ''pw''\<rparr>"
      "\<lambda>q. Responded \<lparr>status_code = 200, response_text = ''<html/>''\<rparr>"
      "\<lambda>s. Inr (Element ''html'' None [])"]
  by simp




text \<open>
  C5. \<open>update_thermo_drivers\<close> sets the thermostat mode from the heater setting:
  0 gives Off, 1 Heat, 2 Auto, 3 Aux Heat; every setting gives a mode (any other
  setting gives Off), and on the settings 0 to 3 the map is one to one and onto the
  four modes. The heat/cool state comes from the status bits by the address: for
  \<^verbatim>\<open>spaht\<close> bit \<open>0x02\<close> gives Heating, else bit \<open>0x08\<close> gives Aux Heat, else Idle;
  for \<^verbatim>\<open>poolht\<close> bit \<open>0x01\<close> gives Heating, else bit \<open>0x04\<close> gives Aux Heat, else
  Idle. With no status bit set both are Idle, whatever the setting.
\<close>

theorem thermo_drivers_derivation:
  "update_thermo_drivers a 0 h ds ''CLIMD'' = Some (mode_code Off)
   \<and> update_thermo_drivers a 1 h ds ''CLIMD'' = Some (mode_code Heat)
   \<and> update_thermo_drivers a 2 h ds ''CLIMD'' = Some (mode_code Auto)
   \<and> update_thermo_drivers a 3 h ds ''CLIMD'' = Some (mode_code AuxHeat)
   \<and> (\<exists>m. update_thermo_drivers a s h ds ''CLIMD'' = Some (mode_code m))
   \<and> bij_betw (\<lambda>s. the (update_thermo_drivers a s h ds ''CLIMD'')) {0, 1, 2, 3}
        {mode_code Off, mode_code Heat, mode_code Auto, mode_code AuxHeat}
   \<and> update_thermo_drivers ''spaht'' s h ds ''CLIHCS'' =
        Some (hcs_code (if h AND 2 \<noteq> 0 then Heating
                        else if h AND 8 \<noteq> 0 then AuxHeating else Idle))
   \<and> update_thermo_drivers ''poolht'' s h ds ''CLIHCS'' =
        Some (hcs_code (if h AND 1 \<noteq> 0 then Heating
                        else if h AND 4 \<noteq> 0 then AuxHeating else Idle))
   \<and> update_thermo_drivers ''spaht'' s 0 ds ''CLIHCS'' = Some (hcs_code Idle)
   \<and> update_thermo_drivers ''poolht'' s 0 ds ''CLIHCS'' = Some (hcs_code Idle)"
proof -
  have climd: "update_thermo_drivers a s' h ds ''CLIMD'' =
      Some (if s' = 1 then 1 else if s' = 2 then 3 else if s' = 3 then 4 else 0)" for s'
    by (simp add: update_thermo_drivers_def update_hcs_def update_mode_def setDriver_def)
  have bij: "bij_betw (\<lambda>s. the (update_thermo_drivers a s h ds ''CLIMD'')) {0, 1, 2, 3}
        {mode_code Off, mode_code Heat, mode_code Auto, mode_code AuxHeat}"
    unfolding bij_betw_def by (auto simp: climd inj_on_def mode_code_def image_def)
  have ex: "\<exists>m. update_thermo_drivers a s h ds ''CLIMD'' = Some (mode_code m)"
  proof -
    have "update_thermo_drivers a s h ds ''CLIMD'' =
        Some (mode_code (if s = 1 then Heat else if s = 2 then Auto
                         else if s = 3 then AuxHeat else Off))"
      by (simp add: climd mode_code_def)
    then show ?thesis by blast
  qed
  have spa: "update_thermo_drivers ''spaht'' s h ds ''CLIHCS'' =
        Some (hcs_code (if h AND 2 \<noteq> 0 then Heating
                        else if h AND 8 \<noteq> 0 then AuxHeating else Idle))"
    by (simp add: update_thermo_drivers_def update_hcs_def update_mode_def setDriver_def
          truthy_def hcs_code_def)
  have pool: "update_thermo_drivers ''poolht'' s h ds ''CLIHCS'' =
        Some (hcs_code (if h AND 1 \<noteq> 0 then Heating
                        else if h AND 4 \<noteq> 0 then AuxHeating else Idle))"
    by (simp add: update_thermo_drivers_def update_hcs_def update_mode_def setDriver_def
          truthy_def hcs_code_def)
  have spa0: "update_thermo_drivers ''spaht'' s 0 ds ''CLIHCS'' = Some (hcs_code Idle)"
    by (simp add: update_thermo_drivers_def update_hcs_def update_mode_def setDriver_def
          truthy_def hcs_code_def)
  have pool0: "update_thermo_drivers ''poolht'' s 0 ds ''CLIHCS'' = Some (hcs_code Idle)"
    by (simp add: update_thermo_drivers_def update_hcs_def update_mode_def setDriver_def
          truthy_def hcs_code_def)
  show ?thesis
    using climd [of 0] climd [of 1] climd [of 2] climd [of 3] ex bij spa pool spa0 pool0
    by (simp add: mode_code_def)
qed

theorem thermo_drivers_derivation_witness:
  "update_thermo_drivers ''spaht'' 2 8 Map.empty ''CLIMD'' = Some (mode_code Auto)
   \<and> update_thermo_drivers ''spaht'' 2 8 Map.empty ''CLIHCS'' = Some (hcs_code AuxHeating)
   \<and> update_thermo_drivers ''poolht'' 3 0 Map.empty ''CLIHCS'' = Some (hcs_code Idle)"
  using thermo_drivers_derivation [of "''spaht''" 8 Map.empty 2]
    thermo_drivers_derivation [of "''poolht''" 0 Map.empty 3]
  by simp

text \<open>
  \<open>str\<close> of an integer is its decimal text: for a number that is not negative,
  digits only, with the value of the number and without a leading zero (zero itself
  is the one digit \<^verbatim>\<open>0\<close>); for a negative number, a minus sign before the text of
  its absolute value.
\<close>

lemma hd_str_nat: "0 < n \<Longrightarrow> hd (str_nat n) \<noteq> CHR ''0''"
proof (induction n rule: str_nat.induct)
  case (1 n)
  show ?case
  proof (cases "n < 10")
    case True
    have "(of_char (char_of (48 + n) :: char) :: nat) = 48 + n"
      using True by simp
    moreover have "(of_char (CHR ''0'') :: nat) = 48" by simp
    ultimately have "char_of (48 + n) \<noteq> CHR ''0''"
      using "1.prems" by (metis add_cancel_right_right less_numeral_extra(3))
    with True show ?thesis by (subst str_nat.simps) simp
  next
    case False
    then have "0 < n div 10" by simp
    with 1 False have "hd (str_nat (n div 10)) \<noteq> CHR ''0''" by simp
    moreover have "str_nat (n div 10) \<noteq> []" using str_nat_digits by simp
    ultimately show ?thesis using False by (subst str_nat.simps) simp
  qed
qed

lemma py_str_decimal:
  "(0 \<le> val \<longrightarrow>
      py_str val \<noteq> []
      \<and> list_all (\<lambda>c. 48 \<le> (of_char c :: nat) \<and> (of_char c :: nat) \<le> 57) (py_str val)
      \<and> int (foldl (\<lambda>a c. 10 * a + (of_char c - 48)) 0 (py_str val)) = val
      \<and> (0 < val \<longrightarrow> hd (py_str val) \<noteq> CHR ''0''))
   \<and> (val < 0 \<longrightarrow> py_str val = CHR ''-'' # py_str (- val))
   \<and> py_str 0 = ''0''"
proof (intro conjI impI)
  have dig: "is_digit = (\<lambda>c. 48 \<le> (of_char c :: nat) \<and> (of_char c :: nat) \<le> 57)"
    by (auto simp: is_digit_def Let_def fun_eq_iff)
  have dv: "digit_val = (\<lambda>c. of_char c - 48)"
    by (auto simp: digit_val_def fun_eq_iff)
  {
    assume nn: "0 \<le> val"
    then have ps: "py_str val = str_nat (nat val)" by (simp add: py_str_def)
    show "py_str val \<noteq> []" using str_nat_digits [of "nat val"] by (simp add: ps)
    show "list_all (\<lambda>c. 48 \<le> (of_char c :: nat) \<and> (of_char c :: nat) \<le> 57) (py_str val)"
      using str_nat_digits [of "nat val"] by (simp add: ps dig)
    show "int (foldl (\<lambda>a c. 10 * a + (of_char c - 48)) 0 (py_str val)) = val"
      using foldl_str_nat [of "nat val"] nn by (simp add: ps dv)
    {
      assume "0 < val"
      then show "hd (py_str val) \<noteq> CHR ''0''"
        using hd_str_nat [of "nat val"] by (simp add: ps)
    }
  }
  {
    assume "val < 0"
    then show "py_str val = CHR ''-'' # py_str (- val)" by (simp add: py_str_def)
  }
  show "py_str 0 = ''0''" by code_simp
qed

text \<open>
  C6. \<open>send_command\<close> issues exactly one GET, to
  \<^verbatim>\<open>http://<host>/set.cgi?name=<element>&<label>=<value>\<close>, with the user name and
  the password, where the value is the decimal text of the integer: digits only with
  the value of the number and no leading zero when it is not negative, \<^verbatim>\<open>0\<close> for
  zero, a minus sign and the text of the absolute value when it is negative. It
  returns \<open>True\<close> when the GET gives a response whose status is no HTTP error,
  \<open>False\<close> on a timeout, a connection error or an HTTP error status, and raises
  what else the GET raises. \<open>on\<close> sends \<^verbatim>\<open>value=1\<close> and \<open>off\<close> sends
  \<^verbatim>\<open>value=0\<close>, \<open>set_temp\<close> uses the label \<^verbatim>\<open>temp\<close>, \<open>set_heat_setting\<close> the
  label \<^verbatim>\<open>hval\<close>.
\<close>

theorem send_command_result:
  "gets (fst (send_command self net element label val)) =
     [\<lparr>url = ''http://'' @ controllerAddr self @ ''/set.cgi?name='' @ element @ ''&'' @ label
               @ ''='' @ py_str val,
       auth = (userName self, password self), timeout_ms = 3050\<rparr>]
   \<and> (0 \<le> val \<longrightarrow>
        py_str val \<noteq> []
        \<and> list_all (\<lambda>c. 48 \<le> (of_char c :: nat) \<and> (of_char c :: nat) \<le> 57) (py_str val)
        \<and> int (foldl (\<lambda>a c. 10 * a + (of_char c - 48)) 0 (py_str val)) = val
        \<and> (0 < val \<longrightarrow> hd (py_str val) \<noteq> CHR ''0''))
   \<and> (val < 0 \<longrightarrow> py_str val = CHR ''-'' # py_str (- val))
   \<and> py_str 0 = ''0''
   \<and> snd (send_command self net element label val) =
     (case net (command_request self element label val) of
        ReqTimeout \<Rightarrow> Inr False
      | ReqConnectionError \<Rightarrow> Inr False
      | ReqUnexpected \<Rightarrow> Inl Unexpected
      | Responded r \<Rightarrow> if 400 \<le> status_code r \<and> status_code r < 600 then Inr False else Inr True)
   \<and> gets (fst (on self net element)) =
     [\<lparr>url = ''http://'' @ controllerAddr self @ ''/set.cgi?name='' @ element @ ''&value=1'',
       auth = (userName self, password self), timeout_ms = 3050\<rparr>]
   \<and> gets (fst (off self net element)) =
     [\<lparr>url = ''http://'' @ controllerAddr self @ ''/set.cgi?name='' @ element @ ''&value=0'',
       auth = (userName self, password self), timeout_ms = 3050\<rparr>]
   \<and> on self net element = send_command self net element ''value'' 1
   \<and> off self net element = send_command self net element ''value'' 0
   \<and> set_temp self net element val = send_command self net element ''temp'' val
   \<and> set_heat_setting self net element val = send_command self net element ''hval'' val"
proof -
  have one: "py_str 1 = ''1''" by code_simp
  have zero: "py_str 0 = ''0''" by code_simp
  have sent: "gets (fst (send_command self net element l v)) =
     [\<lparr>url = ''http://'' @ controllerAddr self @ ''/set.cgi?name='' @ element @ ''&'' @ l
               @ ''='' @ py_str v,
       auth = (userName self, password self), timeout_ms = 3050\<rparr>]" for l v
    by (simp add: send_command_def try_get_def requests_get_def raise_for_status_def
          command_request_def COMMAND_ENDPOINT_def
             split: http_result.splits sum.splits http_exn.splits)
  have res: "snd (send_command self net element label val) =
     (case net (command_request self element label val) of
        ReqTimeout \<Rightarrow> Inr False
      | ReqConnectionError \<Rightarrow> Inr False
      | ReqUnexpected \<Rightarrow> Inl Unexpected
      | Responded r \<Rightarrow> if 400 \<le> status_code r \<and> status_code r < 600 then Inr False else Inr True)"
    by (simp add: send_command_def try_get_def requests_get_def raise_for_status_def
             split: http_result.splits sum.splits http_exn.splits)
  have wrap: "on self net element = send_command self net element ''value'' 1"
    "off self net element = send_command self net element ''value'' 0"
    "set_temp self net element val = send_command self net element ''temp'' val"
    "set_heat_setting self net element val = send_command self net element ''hval'' val"
    by (simp_all add: on_def off_def set_temp_def set_heat_setting_def
          AUTELIS_ON_VALUE_def AUTELIS_OFF_VALUE_def)
  have on_url: "gets (fst (on self net element)) =
     [\<lparr>url = ''http://'' @ controllerAddr self @ ''/set.cgi?name='' @ element @ ''&value=1'',
       auth = (userName self, password self), timeout_ms = 3050\<rparr>]"
    by (simp add: wrap(1) sent one)
  have off_url: "gets (fst (off self net element)) =
     [\<lparr>url = ''http://'' @ controllerAddr self @ ''/set.cgi?name='' @ element @ ''&value=0'',
       auth = (userName self, password self), timeout_ms = 3050\<rparr>]"
    by (simp add: wrap(2) sent zero)
  note dec = py_str_decimal [of val]
  from sent [of label val] dec [THEN conjunct1] dec [THEN conjunct2, THEN conjunct1]
    dec [THEN conjunct2, THEN conjunct2] res on_url off_url wrap
  show ?thesis by (intro conjI) assumption+
qed

theorem send_command_result_witness:
  "gets (fst (set_temp \<lparr>controllerAddr = ''10.0.0.5'', userName = ''admin'', password = ''pw''\<rparr>
            (\<lambda>q. Responded \<lparr>status_code = 200, response_text = ''ok''\<rparr>) ''poolsp'' 85)) =
     [\<lparr>url = ''http://10.0.0.5/set.cgi?name=poolsp&temp=85'',
       auth = (''admin'', ''pw''), timeout_ms = 3050\<rparr>]
   \<and> gets (fst (set_heat_setting
            \<lparr>controllerAddr = ''10.0.0.5'', userName = ''admin'', password = ''pw''\<rparr>
            (\<lambda>q. Responded \<lparr>status_code = 200, response_text = ''ok''\<rparr>) ''poolht'' 2)) =
     [\<lparr>url = ''http://10.0.0.5/set.cgi?name=poolht&hval=2'',
       auth = (''admin'', ''pw''), timeout_ms = 3050\<rparr>]
   \<and> gets (fst (on \<lparr>controllerAddr = ''10.0.0.5'', userName = ''admin'', password = ''pw''\<rparr>
            (\<lambda>q. Responded \<lparr>status_code = 200, response_text = ''ok''\<rparr>) ''circuit1'')) =
     [\<lparr>url = ''http://10.0.0.5/set.cgi?name=circuit1&value=1'',
       auth = (''admin'', ''pw''), timeout_ms = 3050\<rparr>]
   \<and> gets (fst (off \<lparr>controllerAddr = ''10.0.0.5'', userName = ''admin'', password = ''pw''\<rparr>
            (\<lambda>q. ReqConnectionError) ''circuit1'')) =
     [\<lparr>url = ''http://10.0.0.5/set.cgi?name=circuit1&value=0'',
       auth = (''admin'', ''pw''), timeout_ms = 3050\<rparr>]
   \<and> snd (on \<lparr>controllerAddr = ''10.0.0.5'', userName = ''admin'', password = ''pw''\<rparr>
            (\<lambda>q. Responded \<lparr>status_code = 200, response_text = ''ok''\<rparr>) ''circuit1'') = Inr True
   \<and> snd (off \<lparr>controllerAddr = ''10.0.0.5'', userName = ''admin'', password = ''pw''\<rparr>
            (\<lambda>q. ReqConnectionError) ''circuit1'') = Inr False
   \<and> snd (set_temp \<lparr>controllerAddr = ''10.0.0.5'', userName = ''admin'', password = ''pw''\<rparr>
            (\<lambda>q. Responded \<lparr>status_code = 404, response_text = ''''\<rparr>) ''poolsp'' 85) = Inr False
   \<and> (0 :: int) \<le> 85 \<and> py_str 85 = ''85'' \<and> (-3 :: int) < 0 \<and> py_str (-3) = ''-3''"
proof -
  have t: "py_str 85 = ''85''" by code_simp
  have h: "py_str 2 = ''2''" by code_simp
  have m: "py_str 3 = ''3''" by code_simp
  have one: "py_str 1 = ''1''" by code_simp
  have zero: "py_str 0 = ''0''" by code_simp
  have a: "gets (fst (set_temp \<lparr>controllerAddr = ''10.0.0.5'', userName = ''admin'', password = ''pw''\<rparr>
            (\<lambda>q. Responded \<lparr>status_code = 200, response_text = ''ok''\<rparr>) ''poolsp'' 85)) =
     [\<lparr>url = ''http://10.0.0.5/set.cgi?name=poolsp&temp=85'',
       auth = (''admin'', ''pw''), timeout_ms = 3050\<rparr>]"
    using send_command_result [of "\<lparr>controllerAddr = ''10.0.0.5'', userName = ''admin'', password = ''pw''\<rparr>"
        "\<lambda>q. Responded \<lparr>status_code = 200, response_text = ''ok''\<rparr>" "''poolsp''" "''temp''" 85] t
    by simp
  have b: "gets (fst (set_heat_setting
            \<lparr>controllerAddr = ''10.0.0.5'', userName = ''admin'', password = ''pw''\<rparr>
            (\<lambda>q. Responded \<lparr>status_code = 200, response_text = ''ok''\<rparr>) ''poolht'' 2)) =
     [\<lparr>url = ''http://10.0.0.5/set.cgi?name=poolht&hval=2'',
       auth = (''admin'', ''pw''), timeout_ms = 3050\<rparr>]"
    using send_command_result [of "\<lparr>controllerAddr = ''10.0.0.5'', userName = ''admin'', password = ''pw''\<rparr>"
        "\<lambda>q. Responded \<lparr>status_code = 200, response_text = ''ok''\<rparr>" "''poolht''" "''hval''" 2] h
    by simp
  have c: "gets (fst (on \<lparr>controllerAddr = ''10.0.0.5'', userName = ''admin'', password = ''pw''\<rparr>
            (\<lambda>q. Responded \<lparr>status_code = 200, response_text = ''ok''\<rparr>) ''circuit1'')) =
     [\<lparr>url = ''http://10.0.0.5/set.cgi?name=circuit1&value=1'',
       auth = (''admin'', ''pw''), timeout_ms = 3050\<rparr>]
   \<and> snd (on \<lparr>controllerAddr = ''10.0.0.5'', userName = ''admin'', password = ''pw''\<rparr>
            (\<lambda>q. Responded \<lparr>status_code = 200, response_text = ''ok''\<rparr>) ''circuit1'') = Inr True"
    using send_command_result [of "\<lparr>controllerAddr = ''10.0.0.5'', userName = ''admin'', password = ''pw''\<rparr>"
        "\<lambda>q. Responded \<lparr>status_code = 200, response_text = ''ok''\<rparr>" "''circuit1''" "''value''" 1] one
    by simp
  have d: "gets (fst (off \<lparr>controllerAddr = ''10.0.0.5'', userName = ''admin'', password = ''pw''\<rparr>
            (\<lambda>q. ReqConnectionError) ''circuit1'')) =
     [\<lparr>url = ''http://10.0.0.5/set.cgi?name=circuit1&value=0'',
       auth = (''admin'', ''pw''), timeout_ms = 3050\<rparr>]
   \<and> snd (off \<lparr>controllerAddr = ''10.0.0.5'', userName = ''admin'', password = ''pw''\<rparr>
            (\<lambda>q. ReqConnectionError) ''circuit1'') = Inr False"
    using send_command_result [of "\<lparr>controllerAddr = ''10.0.0.5'', userName = ''admin'', password = ''pw''\<rparr>"
        "\<lambda>q. ReqConnectionError" "''circuit1''" "''value''" 0] zero
    by simp
  have e: "snd (set_temp \<lparr>controllerAddr = ''10.0.0.5'', userName = ''admin'', password = ''pw''\<rparr>
            (\<lambda>q. Responded \<lparr>status_code = 404, response_text = ''''\<rparr>) ''poolsp'' 85) = Inr False"
    using send_command_result [of "\<lparr>controllerAddr = ''10.0.0.5'', userName = ''admin'', password = ''pw''\<rparr>"
        "\<lambda>q. Responded \<lparr>status_code = 404, response_text = ''''\<rparr>" "''poolsp''" "''temp''" 85]
    by simp
  have f: "py_str (-3) = ''-3''"
    using send_command_result [of "\<lparr>controllerAddr = ''10.0.0.5'', userName = ''admin'', password = ''pw''\<rparr>"
        "\<lambda>q. ReqConnectionError" "''circuit1''" "''value''" "-3"] m
    by simp
  from a b c d e f t show ?thesis by simp
qed

text \<open>
  C7. \<open>val_to_text\<close> is a total function on strings: \<^verbatim>\<open>AUTO\<close> gives \<^verbatim>\<open>0\<close>,
  \<^verbatim>\<open>SERVICE\<close> \<^verbatim>\<open>1\<close>, \<^verbatim>\<open>TIMEOUT\<close> \<^verbatim>\<open>2\<close>; \<^verbatim>\<open>TRUE\<close>, \<^verbatim>\<open>T\<close>, \<^verbatim>\<open>ON\<close> and
  \<^verbatim>\<open>HEATER\<close> give \<^verbatim>\<open>1\<close>; \<^verbatim>\<open>FALSE\<close>, \<^verbatim>\<open>F\<close> and \<^verbatim>\<open>OFF\<close> give \<^verbatim>\<open>0\<close>;
  \<^verbatim>\<open>SOLPREF\<close> gives \<^verbatim>\<open>2\<close>, \<^verbatim>\<open>SOLAR\<close> \<^verbatim>\<open>3\<close>; every other value is returned as
  it is.
\<close>

theorem val_to_text_table:
  "val_to_text ''AUTO'' = ''0'' \<and> val_to_text ''SERVICE'' = ''1'' \<and> val_to_text ''TIMEOUT'' = ''2''
   \<and> val_to_text ''TRUE'' = ''1'' \<and> val_to_text ''T'' = ''1'' \<and> val_to_text ''ON'' = ''1''
   \<and> val_to_text ''HEATER'' = ''1''
   \<and> val_to_text ''FALSE'' = ''0'' \<and> val_to_text ''F'' = ''0'' \<and> val_to_text ''OFF'' = ''0''
   \<and> val_to_text ''SOLPREF'' = ''2'' \<and> val_to_text ''SOLAR'' = ''3''
   \<and> (val \<notin> set [''AUTO'', ''SERVICE'', ''TIMEOUT'', ''TRUE'', ''T'', ''ON'', ''HEATER'',
                    ''FALSE'', ''F'', ''OFF'', ''SOLPREF'', ''SOLAR'']
        \<longrightarrow> val_to_text val = val)"
  by (simp add: val_to_text_def)

theorem val_to_text_table_witness:
  "''78'' \<notin> set [''AUTO'', ''SERVICE'', ''TIMEOUT'', ''TRUE'', ''T'', ''ON'', ''HEATER'',
                    ''FALSE'', ''F'', ''OFF'', ''SOLPREF'', ''SOLAR'']
   \<and> val_to_text ''78'' = ''78'' \<and> val_to_text ''HEATER'' = ''1''"
  using val_to_text_table [of "''78''"] by simp

text \<open>
  C9. When the reply to the probe contains \<^verbatim>\<open>!00 OPMODE=\<close>, the bytes of the reply go
  through the same processing as a message of the steady loop. So for a handler \<open>f\<close>
  and a reply \<^verbatim>\<open>!00 OPMODE=<v>\<close> with carriage return and line feed, \<open>v\<close> a word of
  capitals and digits, the listener calls \<open>f\<close> with \<^verbatim>\<open>opmode\<close> and \<open>val_to_text v\<close>
  and only then goes back to the loop.
\<close>

theorem probe_reply_delivered:
  "(bytes_in TEST_RTN_SUCCESS msg \<longrightarrow>
      listen_loop cb (SockTimeout # Done msg # recvs) (Done u # sends)
      = before [SetTimeout 600, SetTimeout 2, Send TEST_TCP_MSG]
          (after_receive cb msg recvs sends))
   \<and> (is_token v \<longrightarrow>
      listen_loop (Some f) (SockTimeout # Done (''!00 OPMODE='' @ v @ [CR, LF]) # recvs)
        (Done u # sends)
      = before ([SetTimeout 600, SetTimeout 2, Send TEST_TCP_MSG, Log Debug,
                 Callback ''opmode'' (val_to_text v)]
                @ (if f ''opmode'' (val_to_text v) then [] else [Log Warning]))
          (listen_loop (Some f) recvs sends))"
proof (intro conjI impI)
  assume "bytes_in TEST_RTN_SUCCESS msg"
  then show "listen_loop cb (SockTimeout # Done msg # recvs) (Done u # sends)
      = before [SetTimeout 600, SetTimeout 2, Send TEST_TCP_MSG]
          (after_receive cb msg recvs sends)"
    by (simp add: listen_loop_probe_reply)
next
  assume v: "is_token v"
  have tok: "is_token ''OPMODE''" by (simp add: is_token_def token_char_def)
  have el: "cmd_to_element ''OPMODE'' = Inr ''opmode''"
    by code_simp
  have "process_msg (Some f) ((''!00 '' @ ''OPMODE'' @ ''='' @ v @ '''' @ [CR, LF]) @ [])
      = ([Log Debug, Callback ''opmode'' (val_to_text v)]
          @ (if f ''opmode'' (val_to_text v) then [] else [Log Warning]), None)"
    by (rule process_msg_line [OF tok v _ decode_Nil el]) simp
  moreover have "bytes_in TEST_RTN_SUCCESS (''!00 OPMODE='' @ v @ [CR, LF])"
    by (simp add: TEST_RTN_SUCCESS_def)
  ultimately show "listen_loop (Some f)
        (SockTimeout # Done (''!00 OPMODE='' @ v @ [CR, LF]) # recvs) (Done u # sends)
      = before ([SetTimeout 600, SetTimeout 2, Send TEST_TCP_MSG, Log Debug,
                 Callback ''opmode'' (val_to_text v)]
                @ (if f ''opmode'' (val_to_text v) then [] else [Log Warning]))
          (listen_loop (Some f) recvs sends)"
    by (simp add: listen_loop_probe_reply after_receive_def before_def)
qed

theorem probe_reply_delivered_witness:
  "bytes_in TEST_RTN_SUCCESS (''!00 OPMODE=AUTO'' @ [CR, LF]) \<and> is_token ''AUTO''
   \<and> listen_loop (Some (\<lambda>element val. True))
       [SockTimeout, Done (''!00 OPMODE=AUTO'' @ [CR, LF])] [Done ()]
     = ([SetTimeout 600, SetTimeout 2, Send TEST_TCP_MSG, Log Debug, Callback ''opmode'' ''0'',
         SetTimeout 600], Blocked)"
proof -
  have a: "bytes_in TEST_RTN_SUCCESS (''!00 OPMODE=AUTO'' @ [CR, LF])"
    by (simp add: TEST_RTN_SUCCESS_def)
  have b: "is_token ''AUTO''"
    by (simp add: is_token_def token_char_def)
  from b probe_reply_delivered [of "''!00 OPMODE=AUTO'' @ [CR, LF]" "Some (\<lambda>element val. True)"
        "[]" "()" "[]" "''AUTO''" "\<lambda>element val. True"]
  have "listen_loop (Some (\<lambda>element val. True))
       [SockTimeout, Done (''!00 OPMODE='' @ ''AUTO'' @ [CR, LF])] [Done ()]
     = before ([SetTimeout 600, SetTimeout 2, Send TEST_TCP_MSG, Log Debug,
                Callback ''opmode'' (val_to_text ''AUTO'')] @ [])
         (listen_loop (Some (\<lambda>element val. True)) [] [])"
    by (simp only: if_True)
  with a b show ?thesis
    by (simp add: listen_loop_Nil before_def val_to_text_def)
qed

text \<open>
  C10, as amended. When the receive of the steady loop (the one with the 600 second
  timeout) returns no bytes, the listener neither closes the socket nor returns: the
  empty message is skipped and the loop goes on, so that any number of such reads
  leaves the listener waiting in the next receive. The receive of the reply to the
  probe is different: a reply of no bytes lacks \<^verbatim>\<open>!00 OPMODE=\<close>, and the listener
  closes the socket and returns \<open>False\<close>.
\<close>

theorem zero_byte_read_skipped:
  "listen_loop cb (Done [] # recvs) sends = before [SetTimeout 600] (listen_loop cb recvs sends)
   \<and> listen_loop cb (replicate n (Done [])) sends = (replicate (Suc n) (SetTimeout 600), Blocked)
   \<and> listen_loop cb (SockTimeout # Done [] # recvs) (Done u # sends) =
       ([SetTimeout 600, SetTimeout 2, Send TEST_TCP_MSG, Log Error, Close], Returned False)"
proof -
  have one: "listen_loop cb (Done [] # recvs) sends
      = before [SetTimeout 600] (listen_loop cb recvs sends)"
    by (simp add: listen_loop_Done after_receive_def process_msg_empty before_def)
  have "listen_loop cb (replicate n (Done []) @ []) sends
      = before (replicate n (SetTimeout 600)) (listen_loop cb [] sends)"
    by (rule listen_loop_zero_bytes)
  then have many: "listen_loop cb (replicate n (Done [])) sends
      = (replicate (Suc n) (SetTimeout 600), Blocked)"
    by (simp add: listen_loop_Nil before_def replicate_append_same)
  have reply: "listen_loop cb (SockTimeout # Done [] # recvs) (Done u # sends) =
       ([SetTimeout 600, SetTimeout 2, Send TEST_TCP_MSG, Log Error, Close], Returned False)"
    by (simp add: listen_loop_probe_reply TEST_RTN_SUCCESS_def decode_Nil)
  from one many reply show ?thesis by (simp only: simp_thms)
qed

theorem zero_byte_read_skipped_witness:
  "listen_loop None [Done [], Done [], Done []] [] =
     ([SetTimeout 600, SetTimeout 600, SetTimeout 600, SetTimeout 600], Blocked)"
  using zero_byte_read_skipped [of None "[]" "[]" 3 "()"]
  by (simp add: numeral_3_eq_3)

text \<open>
  The receive times out, the probe is sent, and the receive of the reply returns no
  bytes: the listener closes the socket and returns \<open>False\<close>.
\<close>

theorem zero_byte_probe_reply_closes:
  "listen_loop None [SockTimeout, Done []] [Done ()] =
     ([SetTimeout 600, SetTimeout 2, Send TEST_TCP_MSG, Log Error, Close], Returned False)"
  by code_simp

end
